theory Spec2Isabelle
  imports Main
begin

section \<open>JavaScript strings and built-ins used by the two programs\<close>

text \<open>
  Strings are lists of characters. The WordNet database files are plain ASCII, and the
  model covers that fragment: \<open>toLowerCase\<close> maps \<open>A\<close>..\<open>Z\<close> to \<open>a\<close>..\<open>z\<close> and leaves
  every other character alone, and the white space of \<open>\s\<close>, \<open>trim\<close> and \<open>parseInt\<close>
  is TAB, LF, VT, FF, CR and the space.
\<close>

definition isWhiteSpace :: "char \<Rightarrow> bool" where
  "isWhiteSpace c = (let n = (of_char c :: nat) in (9 \<le> n \<and> n \<le> 13) \<or> n = 32)"

definition toLowerChar :: "char \<Rightarrow> char" where
  "toLowerChar c =
     (let n = (of_char c :: nat) in if 65 \<le> n \<and> n \<le> 90 then char_of (n + 32) else c)"

definition toLowerCase :: "string \<Rightarrow> string" where
  "toLowerCase s = map toLowerChar s"

definition trim :: "string \<Rightarrow> string" where
  "trim s = rev (dropWhile isWhiteSpace (rev (dropWhile isWhiteSpace s)))"

definition startsWith :: "string \<Rightarrow> string \<Rightarrow> bool" where
  "startsWith pat s = (take (length pat) s = pat)"

text \<open>\<open>s.indexOf(pat)\<close>: the first position where \<open>pat\<close> occurs; \<open>None\<close> stands for \<open>-1\<close>.\<close>

fun indexOf :: "string \<Rightarrow> string \<Rightarrow> nat option" where
  "indexOf pat [] = (if pat = [] then Some 0 else None)"
| "indexOf pat (c # cs) =
     (if startsWith pat (c # cs) then Some 0 else map_option Suc (indexOf pat cs))"

text \<open>\<open>s.split("\n")\<close>: one piece more than there are line feeds.\<close>

fun splitNewline :: "string \<Rightarrow> string list" where
  "splitNewline [] = [[]]"
| "splitNewline (c # cs) =
     (if c = CHR 0x0A then [] # splitNewline cs
      else (case splitNewline cs of t # ts \<Rightarrow> (c # t) # ts | [] \<Rightarrow> [[c]]))"

text \<open>
  \<open>s.split(/\s+/)\<close>: every maximal run of white space is one separator, so a string that
  starts (ends) with white space has an empty first (last) piece.
\<close>

fun splitWhitespace :: "string \<Rightarrow> string list" where
  "splitWhitespace [] = [[]]"
| "splitWhitespace (c # cs) =
     (if isWhiteSpace c then
        (case cs of
           [] \<Rightarrow> [] # splitWhitespace cs
         | d # _ \<Rightarrow> if isWhiteSpace d then splitWhitespace cs else [] # splitWhitespace cs)
      else (case splitWhitespace cs of t # ts \<Rightarrow> (c # t) # ts | [] \<Rightarrow> [[c]]))"

text \<open>\<open>w.replace(/_/g, " ")\<close>.\<close>

definition replaceUnderscores :: "string \<Rightarrow> string" where
  "replaceUnderscores w = map (\<lambda>c. if c = CHR ''_'' then CHR '' '' else c) w"

text \<open>Reading \<open>xs[i]\<close> from an array: \<open>None\<close> stands for \<open>undefined\<close>.\<close>

definition nth_opt :: "'a list \<Rightarrow> nat \<Rightarrow> 'a option" where
  "nth_opt xs i = (if i < length xs then Some (xs ! i) else None)"

text \<open>\<open>String(x)\<close> of a value that is a string or \<open>undefined\<close>.\<close>

definition toString :: "string option \<Rightarrow> string" where
  "toString x = (case x of None \<Rightarrow> ''undefined'' | Some s \<Rightarrow> s)"

text \<open>
  \<open>parseInt(s, 16)\<close>: leading white space is dropped, then an optional sign, then an
  optional \<open>0x\<close> or \<open>0X\<close>; the longest run of hexadecimal digits that follows is the
  number, and \<open>None\<close> (for \<open>NaN\<close>) is returned when that run is empty. The value is an
  exact integer, as it is in JavaScript for fields below \<open>2^53\<close>.
\<close>

definition hexDigit :: "char \<Rightarrow> nat option" where
  "hexDigit c =
     (let n = (of_char c :: nat) in
      if 48 \<le> n \<and> n \<le> 57 then Some (n - 48)
      else if 97 \<le> n \<and> n \<le> 102 then Some (n - 87)
      else if 65 \<le> n \<and> n \<le> 70 then Some (n - 55)
      else None)"

fun hexValue :: "nat \<Rightarrow> string \<Rightarrow> nat" where
  "hexValue acc [] = acc"
| "hexValue acc (c # cs) =
     (case hexDigit c of Some d \<Rightarrow> hexValue (16 * acc + d) cs | None \<Rightarrow> acc)"

definition parseInt16 :: "string \<Rightarrow> int option" where
  "parseInt16 s =
     (let s1 = dropWhile isWhiteSpace s;
          negative = (take 1 s1 = ''-'');
          s2 = (if take 1 s1 = ''+'' \<or> take 1 s1 = ''-'' then drop 1 s1 else s1);
          s3 = (if take 2 s2 = ''0x'' \<or> take 2 s2 = ''0X'' then drop 2 s2 else s2)
      in case s3 of
           [] \<Rightarrow> None
         | c # _ \<Rightarrow>
             if hexDigit c = None then None
             else Some ((if negative then - 1 else 1) * int (hexValue 0 s3)))"

section \<open>The Lexicon Compiler (scripts/build-wordnet-json.cjs)\<close>

subsection \<open>Data model\<close>

datatype posKey = Noun | Verb | Adj | Adv

text \<open>A sense record \<open>{definition, synonyms}\<close>; its first field is \<open>definition_text\<close> here.\<close>

record sense =
  definition_text :: string
  synonyms :: "string list"

type_synonym entry = "posKey \<rightharpoonup> sense list"

type_synonym lexicon = "string \<rightharpoonup> entry"

text \<open>
  \<open>dictionary\<close> is a plain object, so \<open>dictionary[key]\<close> also finds what the object
  inherits from \<open>Object.prototype\<close>. These are the names it inherits; each of them is
  bound to a function or an object, which is truthy.
\<close>

definition objectPrototypeNames :: "string list" where
  "objectPrototypeNames =
     [''constructor'', ''__defineGetter__'', ''__defineSetter__'', ''hasOwnProperty'',
      ''__lookupGetter__'', ''__lookupSetter__'', ''isPrototypeOf'',
      ''propertyIsEnumerable'', ''toString'', ''valueOf'', ''__proto__'',
      ''toLocaleString'']"

text \<open>
  The state of a run: \<open>dictionary\<close> holds the own properties of the global
  \<open>dictionary\<close> object (what \<open>JSON.stringify\<close> writes), \<open>inherited n\<close> holds the
  part-of-speech properties that the run has set on the inherited object
  \<open>dictionary[n]\<close> for a name \<open>n\<close> of \<open>objectPrototypeNames\<close>, and \<open>warnings\<close> holds the
  arguments of every \<open>console.warn\<close> call so far.
\<close>

record build_state =
  dictionary :: lexicon
  inherited :: "string \<Rightarrow> entry"
  warnings :: "string list list"

subsection \<open>parseDataFile\<close>

definition normalize :: "string \<Rightarrow> string" where
  "normalize w = toLowerCase w"

text \<open>
  The loop \<open>for (let i = 0; i < wcnt; i++)\<close> over \<open>rest[i * 2]\<close>: a token that is
  \<open>undefined\<close> or empty is not pushed. The counter is an exact integer here; the
  source counts in doubles, which agree with it up to \<open>2^53\<close>.
\<close>

definition extractWords :: "int \<Rightarrow> string list \<Rightarrow> string list" where
  "extractWords wcnt rest =
     concat (map (\<lambda>i. case nth_opt rest (i * 2) of
                         None \<Rightarrow> []
                       | Some w \<Rightarrow> if w = [] then [] else [replaceUnderscores w])
                 [0..<nat wcnt])"

definition glossOf :: "string \<Rightarrow> string" where
  "glossOf line =
     (case indexOf '' | '' line of
        Some pipeIndex \<Rightarrow> trim (drop (pipeIndex + 3) line)
      | None \<Rightarrow> [])"

definition posKeyOf :: "string option \<Rightarrow> posKey option" where
  "posKeyOf ss_type =
     (if ss_type = Some ''n'' then Some Noun
      else if ss_type = Some ''v'' then Some Verb
      else if ss_type = Some ''a'' \<or> ss_type = Some ''s'' then Some Adj
      else if ss_type = Some ''r'' then Some Adv
      else None)"

text \<open>
  The three statements of the inner loop: make sure \<open>dictionary[key]\<close> and
  \<open>dictionary[key][posKey]\<close> are truthy, then push. When \<open>key\<close> is not an own property
  but an inherited name, \<open>dictionary[key]\<close> is truthy already and the array is created
  on the inherited object. A key is lowercased and has no underscore, so the only
  inherited name it can be is \<open>constructor\<close>, the global \<open>Object\<close> function.
\<close>

definition pushSense :: "entry \<Rightarrow> posKey \<Rightarrow> sense \<Rightarrow> entry" where
  "pushSense e pk s = e(pk \<mapsto> (case e pk of None \<Rightarrow> [] | Some l \<Rightarrow> l) @ [s])"

definition addSense :: "string \<Rightarrow> posKey \<Rightarrow> sense \<Rightarrow> build_state \<Rightarrow> build_state" where
  "addSense key pk s st =
     (case dictionary st key of
        Some e \<Rightarrow> st\<lparr>dictionary := (dictionary st)(key \<mapsto> pushSense e pk s)\<rparr>
      | None \<Rightarrow>
          if key \<in> set objectPrototypeNames
          then st\<lparr>inherited := (inherited st)(key := pushSense (inherited st key) pk s)\<rparr>
          else st\<lparr>dictionary := (dictionary st)(key \<mapsto> pushSense Map.empty pk s)\<rparr>)"

definition senseFor :: "string \<Rightarrow> string list \<Rightarrow> string \<Rightarrow> sense" where
  "senseFor gloss words w =
     \<lparr>definition_text = gloss,
      synonyms = filter (\<lambda>x. toLowerCase x \<noteq> toLowerCase w) words\<rparr>"

definition addWords :: "posKey \<Rightarrow> string \<Rightarrow> string list \<Rightarrow> string list \<Rightarrow> build_state \<Rightarrow> build_state" where
  "addWords pk gloss words ws st =
     foldl (\<lambda>st w. addSense (normalize w) pk (senseFor gloss words w) st) st ws"

text \<open>The fields of a line that the loop body reads.\<close>

definition ss_type :: "string \<Rightarrow> string option" where
  "ss_type line = nth_opt (splitWhitespace line) 2"

definition w_cnt_hex :: "string \<Rightarrow> string option" where
  "w_cnt_hex line = nth_opt (splitWhitespace line) 3"

definition rest :: "string \<Rightarrow> string list" where
  "rest line = drop 4 (splitWhitespace line)"

definition wcntOf :: "string \<Rightarrow> int option" where
  "wcntOf line = parseInt16 (toString (w_cnt_hex line))"

text \<open>One iteration of \<open>for (const line of lines)\<close>.\<close>

definition parseLine :: "string \<Rightarrow> build_state \<Rightarrow> build_state" where
  "parseLine line st =
     (if line = [] \<or> startsWith ''  '' line then st
      else (case wcntOf line of
              None \<Rightarrow> st
            | Some wcnt \<Rightarrow>
                (if wcnt \<le> 0 then st
                 else (let words = extractWords wcnt (rest line);
                           gloss = glossOf line
                       in (case posKeyOf (ss_type line) of
                             None \<Rightarrow> st
                           | Some pk \<Rightarrow> addWords pk gloss words words st)))))"

text \<open>
  The files of the \<open>dict\<close> directory, by name: \<open>None\<close> when \<open>fs.existsSync\<close> is false,
  otherwise the text \<open>fs.readFileSync\<close> returns.
\<close>

type_synonym files = "string \<rightharpoonup> string"

definition dataPath :: "string \<Rightarrow> string" where
  "dataPath pos = ''data.'' @ (if pos = ''adj'' then ''adj'' else pos)"

definition parseDataFile :: "files \<Rightarrow> string \<Rightarrow> build_state \<Rightarrow> build_state" where
  "parseDataFile fs pos st =
     (case fs (dataPath pos) of
        None \<Rightarrow> st
      | Some text \<Rightarrow> foldl (\<lambda>st line. parseLine line st) st (splitNewline text))"

text \<open>
  The run: \<open>["noun", "verb", "adj", "adv"].forEach((p) => parseDataFile(p))\<close> on the
  empty dictionary. The statements around it print three progress lines with
  \<open>console.log\<close> and write \<open>JSON.stringify(dictionary)\<close>, the own properties of
  \<open>dictionary\<close>, to the output file.
\<close>

definition initial_build :: build_state where
  "initial_build = \<lparr>dictionary = Map.empty, inherited = (\<lambda>_. Map.empty), warnings = []\<rparr>"

definition compile :: "files \<Rightarrow> build_state" where
  "compile fs =
     foldl (\<lambda>st p. parseDataFile fs p st) initial_build [''noun'', ''verb'', ''adj'', ''adv'']"

definition artifact :: "files \<Rightarrow> lexicon" where
  "artifact fs = dictionary (compile fs)"

text \<open>
  Reading \<open>dictionary[key][posKey]\<close> as JavaScript does, own property first and then
  the inherited object; the empty list stands for a missing array.
\<close>

definition sensesAt :: "build_state \<Rightarrow> string \<Rightarrow> posKey \<Rightarrow> sense list" where
  "sensesAt st key pk =
     (case dictionary st key of
        Some e \<Rightarrow> (case e pk of Some l \<Rightarrow> l | None \<Rightarrow> [])
      | None \<Rightarrow>
          if key \<in> set objectPrototypeNames
          then (case inherited st key pk of Some l \<Rightarrow> l | None \<Rightarrow> [])
          else [])"

section \<open>The Lookup Client (src/App.jsx)\<close>

subsection \<open>State\<close>

text \<open>
  What \<open>dictionary[term] || null\<close> evaluates to when it is not \<open>null\<close>: an entry of
  the Lexicon, or the member of \<open>Object.prototype\<close> that the Lexicon object inherits
  under that name.
\<close>

datatype lookup_value = OwnEntry entry | InheritedMember string

text \<open>
  What the \<open>result\<close> state can hold besides \<open>null\<close>: an object with part-of-speech
  properties (an entry of the Lexicon, or the empty object \<open>{}\<close>), the object
  \<open>Object.prototype\<close> itself, or \<open>InheritedCall n\<close>, which stands for whatever React is
  left with after calling the inherited function named \<open>n\<close>, other than \<open>Object\<close>, as
  a state updater. A lowercased term never names such a function.
\<close>

datatype result_value = ObjectValue entry | ObjectPrototype | InheritedCall string

text \<open>
  \<open>setResult(entry)\<close> for a looked-up value, given the previous \<open>result\<close>. A
  \<open>useState\<close> setter that is passed a function calls it on the previous state and
  stores what it returns. An entry of the Lexicon is an object and is stored as it is,
  and so is \<open>Object.prototype\<close>, the value of \<open>dictionary["__proto__"]\<close>. The inherited
  \<open>constructor\<close> is the function \<open>Object\<close>: \<open>Object(null)\<close> is a new empty object and
  \<open>Object(o)\<close> is \<open>o\<close> for an object \<open>o\<close>.
\<close>

definition setResult :: "lookup_value \<Rightarrow> result_value option \<Rightarrow> result_value option" where
  "setResult entry prev =
     (case entry of
        OwnEntry e \<Rightarrow> Some (ObjectValue e)
      | InheritedMember n \<Rightarrow>
          if n = ''__proto__'' then Some ObjectPrototype
          else if n = ''constructor'' then
            (case prev of
               None \<Rightarrow> Some (ObjectValue Map.empty)
             | Some (ObjectValue e) \<Rightarrow> Some (ObjectValue e)
             | Some ObjectPrototype \<Rightarrow> Some ObjectPrototype
             | Some (InheritedCall m) \<Rightarrow> Some (InheritedCall n))
          else Some (InheritedCall n))"

text \<open>
  The component's state variables and refs. \<open>history\<close> is the React state,
  \<open>historyRef\<close> the array of \<open>historyRef.current\<close> that the handlers read, and
  \<open>historyIndex\<close> the recall cursor (\<open>-1\<close> for none).
\<close>

record app_state =
  app_dictionary :: "lexicon option"
  loading :: bool
  word :: string
  result :: "result_value option"
  error :: string
  history :: "string list"
  historyRef :: "string list"
  historyIndex :: int

definition initial_app :: app_state where
  "initial_app =
     \<lparr>app_dictionary = None, loading = True, word = [], result = None, error = [],
      history = [], historyRef = [], historyIndex = - 1\<rparr>"

subsection \<open>pushHistory and doSearch\<close>

definition pushHistory :: "string \<Rightarrow> app_state \<Rightarrow> app_state" where
  "pushHistory trm st =
     (if trm = [] then st
      else (let h = historyRef st;
                st1 = (if length h = 0 \<or> last h \<noteq> trm
                       then (let h1 = h @ [trm];
                                 h2 = (if length h1 > 100 then tl h1 else h1)
                             in st\<lparr>historyRef := h2, history := h2\<rparr>)
                       else st)
            in st1\<lparr>historyIndex := - 1\<rparr>))"

definition lookupEntry :: "lexicon \<Rightarrow> string \<Rightarrow> lookup_value option" where
  "lookupEntry d trm =
     (case d trm of
        Some e \<Rightarrow> Some (OwnEntry e)
      | None \<Rightarrow> if trm \<in> set objectPrototypeNames then Some (InheritedMember trm) else None)"

text \<open>
  \<open>doSearch\<close> is a closure: it reads the \<open>word\<close> and the \<open>dictionary\<close> of the render
  that created it, here the parameters \<open>word_c\<close> and \<open>dictionary_c\<close>. The argument
  \<open>w\<close> is \<open>None\<close> when the call passes none.
\<close>

definition doSearch :: "string \<Rightarrow> lexicon option \<Rightarrow> string option \<Rightarrow> app_state \<Rightarrow> app_state" where
  "doSearch word_c dictionary_c w st =
     (let trm = toLowerCase (trim (case w of Some s \<Rightarrow> s | None \<Rightarrow> word_c)) in
      if trm = [] then st\<lparr>error := ''Please enter a word.'', result := None\<rparr>
      else (case dictionary_c of
              None \<Rightarrow> st\<lparr>error := ''Dictionary not loaded yet.''\<rparr>
            | Some d \<Rightarrow>
                (case lookupEntry d trm of
                   None \<Rightarrow> pushHistory trm (st\<lparr>result := None, error := ''No match.''\<rparr>)
                 | Some entry \<Rightarrow>
                     pushHistory trm (st\<lparr>error := [], result := setResult entry (result st)\<rparr>))))"

text \<open>
  The query operation as the Search button and the synonym tokens run it: the closure
  of the current render.
\<close>

definition search :: "string option \<Rightarrow> app_state \<Rightarrow> app_state" where
  "search w st = doSearch (word st) (app_dictionary st) w st"

definition onClickSynonym :: "string \<Rightarrow> app_state \<Rightarrow> app_state" where
  "onClickSynonym syn st = search (Some syn) (st\<lparr>word := syn\<rparr>)"

subsection \<open>The keyboard handler\<close>

text \<open>\<open>h[idx] ?? ""\<close> for an integer \<open>idx\<close>.\<close>

definition entryAt :: "string list \<Rightarrow> int \<Rightarrow> string" where
  "entryAt h idx = (if 0 \<le> idx \<and> idx < int (length h) then h ! nat idx else [])"

definition arrowUp :: "app_state \<Rightarrow> app_state" where
  "arrowUp st =
     (let h = historyRef st in
      if length h = 0 then st
      else (let i = (if historyIndex st < int (length h) - 1
                     then historyIndex st + 1 else historyIndex st);
                idx = int (length h) - 1 - i
            in st\<lparr>historyIndex := i, word := entryAt h idx\<rparr>))"

definition arrowDown :: "app_state \<Rightarrow> app_state" where
  "arrowDown st =
     (let h = historyRef st in
      if length h = 0 then st
      else if historyIndex st > 0
           then (let i = historyIndex st - 1;
                     idx = int (length h) - 1 - i
                 in st\<lparr>historyIndex := i, word := entryAt h idx\<rparr>)
           else st\<lparr>historyIndex := - 1, word := []\<rparr>)"

datatype key = Enter | Escape | ArrowUp | ArrowDown | OtherKey

text \<open>
  \<open>onKey\<close> is registered once, by an effect with no dependencies, so the \<open>doSearch\<close>
  it calls is the closure of the first render, where \<open>word\<close> is \<open>""\<close> and
  \<open>dictionary\<close> is \<open>null\<close>. \<open>inputFocused\<close> is
  \<open>document.activeElement === inputRef.current\<close>.
\<close>

definition onKey :: "key \<Rightarrow> bool \<Rightarrow> app_state \<Rightarrow> app_state" where
  "onKey k inputFocused st =
     (case k of
        Enter \<Rightarrow> if inputFocused then doSearch [] None None st else st
      | Escape \<Rightarrow> st\<lparr>word := [], result := None\<rparr>
      | ArrowUp \<Rightarrow> arrowUp st
      | ArrowDown \<Rightarrow> arrowDown st
      | OtherKey \<Rightarrow> st)"

subsection \<open>Events of a session\<close>

text \<open>
  What can happen to the component: the fetch of the artifact resolves or fails, the
  user types, clicks Search, clicks a synonym token or presses a key. The input, the
  button and the tokens are rendered only once loading is over. A synonym click is
  allowed with any string, which is more than the page offers.
\<close>

datatype event =
  FetchOk lexicon | FetchFailed | Change string | ClickSearch | ClickSynonym string
  | KeyDown key bool

definition step :: "event \<Rightarrow> app_state \<Rightarrow> app_state" where
  "step ev st =
     (case ev of
        FetchOk json \<Rightarrow> st\<lparr>app_dictionary := Some json, loading := False\<rparr>
      | FetchFailed \<Rightarrow> st\<lparr>error := ''Failed to load dictionary.'', loading := False\<rparr>
      | Change v \<Rightarrow> if loading st then st else st\<lparr>word := v\<rparr>
      | ClickSearch \<Rightarrow> if loading st then st else search None st
      | ClickSynonym syn \<Rightarrow> if loading st then st else onClickSynonym syn st
      | KeyDown k inputFocused \<Rightarrow> onKey k inputFocused st)"

definition run :: "event list \<Rightarrow> app_state" where
  "run evs = foldl (\<lambda>st ev. step ev st) initial_app evs"

section \<open>Observations and example inputs\<close>

text \<open>The array at \<open>d[k][p]\<close> of a Lexicon object \<open>d\<close>, when there is one.\<close>

definition sensesOf :: "lexicon \<Rightarrow> string \<Rightarrow> posKey \<Rightarrow> sense list option" where
  "sensesOf d k p = (case d k of None \<Rightarrow> None | Some e \<Rightarrow> e p)"

text \<open>Every string that occurs in some \<open>synonyms\<close> array of a Lexicon.\<close>

definition allSynonyms :: "lexicon \<Rightarrow> string set" where
  "allSynonyms d =
     {x. \<exists>k p ss s. sensesOf d k p = Some ss \<and> s \<in> set ss \<and> x \<in> set (synonyms s)}"

text \<open>
  The invariant of the compiler's loop over lines: the lowercased form of every
  synonym is an own key of \<open>dictionary\<close>, the name \<open>constructor\<close> apart.
\<close>

definition synonymsAreKeys :: "build_state \<Rightarrow> bool" where
  "synonymsAreKeys st =
     (\<forall>x \<in> allSynonyms (dictionary st).
        toLowerCase x \<in> dom (dictionary st) \<or> toLowerCase x = ''constructor'')"

text \<open>
  The invariant of the client's history: at most 100 entries, the React state mirrors
  the ref, and every entry is a non-empty, trimmed, lowercased string.
\<close>

definition historyOk :: "app_state \<Rightarrow> bool" where
  "historyOk st =
     (length (historyRef st) \<le> 100 \<and> history st = historyRef st
      \<and> list_all (\<lambda>t. t \<noteq> [] \<and> trim t = t \<and> toLowerCase t = t) (historyRef st))"

text \<open>Lines and files of the compiler's input.\<close>

definition example_line :: string where
  "example_line = ''00001740 00 a 02 happy 0 glad 0 | feeling joy''"

definition zero_count_line :: string where
  "zero_count_line = ''00001740 00 a 00 happy 0 glad 0 | feeling joy''"

definition bad_count_line :: string where
  "bad_count_line = ''00001740 00 a zz happy 0 glad 0 | feeling joy''"

definition builder_line :: string where
  "builder_line =
     ''10020890 18 n 02 builder 0 constructor 0 | someone who supervises construction''"

definition builder_files :: files where
  "builder_files = Map.empty(''data.noun'' \<mapsto> builder_line)"

definition paris_files :: files where
  "paris_files =
     Map.empty(''data.noun'' \<mapsto>
       ''08959683 15 n 02 Paris 0 City_of_Light 0 | the capital of France'')"

definition verb_only_files :: files where
  "verb_only_files = Map.empty(''data.verb'' \<mapsto> ''01926311 38 v 01 run 0 | move fast'')"

text \<open>States and events of the client.\<close>

definition example_lexicon :: lexicon where
  "example_lexicon =
     Map.empty(
       ''happy'' \<mapsto>
         Map.empty(Adj \<mapsto> [\<lparr>definition_text = ''feeling joy'', synonyms = [''glad'']\<rparr>]),
       ''glad'' \<mapsto>
         Map.empty(Adj \<mapsto> [\<lparr>definition_text = ''feeling joy'', synonyms = [''happy'']\<rparr>]))"

definition loaded_state :: app_state where
  "loaded_state = initial_app\<lparr>app_dictionary := Some example_lexicon, loading := False\<rparr>"

definition shown_state :: app_state where
  "shown_state =
     loaded_state\<lparr>word := ''happy'',
       result := Some (ObjectValue (Map.empty(Adj \<mapsto>
                   [\<lparr>definition_text = ''feeling joy'', synonyms = [''glad'']\<rparr>]))),
       history := [''happy''], historyRef := [''happy'']\<rparr>"

definition two_state :: app_state where
  "two_state =
     loaded_state\<lparr>history := [''apple'', ''banana''], historyRef := [''apple'', ''banana'']\<rparr>"

definition nav_state :: app_state where
  "nav_state =
     loaded_state\<lparr>history := [''apple'', ''banana'', ''cherry''],
       historyRef := [''apple'', ''banana'', ''cherry'']\<rparr>"

definition full_history :: "string list" where
  "full_history = map (\<lambda>n. replicate n (CHR ''a'')) [1..<101]"

definition full_state :: app_state where
  "full_state = loaded_state\<lparr>history := full_history, historyRef := full_history\<rparr>"

definition session_events :: "event list" where
  "session_events =
     [FetchOk example_lexicon, Change ''  Happy '', ClickSearch, ClickSynonym ''glad'',
      Change ''zebra'', ClickSearch, ClickSearch, KeyDown Enter True, Change '' '',
      ClickSearch, KeyDown ArrowUp True]"

section \<open>Facts about the string functions\<close>

lemma toLowerChar_idem: "toLowerChar (toLowerChar c) = toLowerChar c"
  by (auto simp: toLowerChar_def Let_def)

lemma isWhiteSpace_toLowerChar: "isWhiteSpace (toLowerChar c) = isWhiteSpace c"
  by (auto simp: toLowerChar_def isWhiteSpace_def Let_def)

lemma toLowerCase_idem: "toLowerCase (toLowerCase s) = toLowerCase s"
  by (simp add: toLowerCase_def toLowerChar_idem)

lemma dropWhile_toLowerCase:
  "dropWhile isWhiteSpace (toLowerCase s) = toLowerCase (dropWhile isWhiteSpace s)"
  by (induction s) (simp_all add: toLowerCase_def isWhiteSpace_toLowerChar)

lemma trim_toLowerCase: "trim (toLowerCase s) = toLowerCase (trim s)"
proof -
  have r: "rev (toLowerCase t) = toLowerCase (rev t)" for t
    by (simp add: toLowerCase_def rev_map)
  show ?thesis
    by (simp add: trim_def dropWhile_toLowerCase r)
qed

text \<open>A string without white space at either end is left alone by \<open>trim\<close>.\<close>

lemma trim_fixed:
  assumes "s = [] \<or> (\<not> isWhiteSpace (hd s) \<and> \<not> isWhiteSpace (last s))"
  shows "trim s = s"
proof (cases s)
  case Nil
  then show ?thesis by (simp add: trim_def)
next
  case (Cons c cs)
  with assms have h: "\<not> isWhiteSpace c" and l: "\<not> isWhiteSpace (last s)" by auto
  from h Cons have 1: "dropWhile isWhiteSpace s = s" by simp
  from Cons have "rev s \<noteq> []" by simp
  moreover from l have "\<not> isWhiteSpace (hd (rev s))" by (simp add: hd_rev)
  ultimately have 2: "dropWhile isWhiteSpace (rev s) = rev s"
    by (cases "rev s") auto
  show ?thesis by (simp add: trim_def 1 2)
qed

lemma trim_ends:
  "trim s = [] \<or> (\<not> isWhiteSpace (hd (trim s)) \<and> \<not> isWhiteSpace (last (trim s)))"
proof (cases "trim s = []")
  case True
  then show ?thesis by simp
next
  case False
  define u where "u = dropWhile isWhiteSpace s"
  define v where "v = dropWhile isWhiteSpace (rev u)"
  have t: "trim s = rev v" by (simp add: trim_def u_def v_def)
  with False have vne: "v \<noteq> []" by simp
  then have hv: "\<not> isWhiteSpace (hd v)" unfolding v_def by (rule hd_dropWhile)
  have "rev u = takeWhile isWhiteSpace (rev u) @ v" by (simp add: v_def)
  then have "rev (rev u) = rev (takeWhile isWhiteSpace (rev u) @ v)" by simp
  then have u: "u = rev v @ rev (takeWhile isWhiteSpace (rev u))" by simp
  from vne u have une: "u \<noteq> []" by auto
  then have hu: "\<not> isWhiteSpace (hd u)" unfolding u_def by (rule hd_dropWhile)
  from u vne have "hd u = hd (rev v)" by (metis hd_append2 rev_is_Nil_conv)
  with hu have "\<not> isWhiteSpace (hd (trim s))" by (simp add: t)
  moreover from hv vne have "\<not> isWhiteSpace (last (trim s))" by (simp add: t last_rev)
  ultimately show ?thesis by simp
qed

lemma trim_idem: "trim (trim s) = trim s"
  by (rule trim_fixed) (rule trim_ends)

lemma normalized_fixed:
  "trim (toLowerCase (trim s)) = toLowerCase (trim s)"
  "toLowerCase (toLowerCase (trim s)) = toLowerCase (trim s)"
  by (simp_all add: trim_toLowerCase trim_idem toLowerCase_idem)

lemma underscore_toLowerChar: "toLowerChar c = CHR ''_'' \<longleftrightarrow> c = CHR ''_''"
  by (auto simp: toLowerChar_def Let_def char_of_eq_iff take_bit_eq_mod)

lemma underscore_toLowerCase: "CHR ''_'' \<in> set (toLowerCase w) \<longleftrightarrow> CHR ''_'' \<in> set w"
proof -
  have "CHR ''_'' \<in> set (toLowerCase w) \<longleftrightarrow> (\<exists>c \<in> set w. toLowerChar c = CHR ''_'')"
    by (simp add: toLowerCase_def image_iff eq_commute)
  then show ?thesis
    by (simp add: underscore_toLowerChar)
qed

text \<open>\<open>indexOf\<close> finds an occurrence, and there is none before it.\<close>

lemma indexOf_first:
  "indexOf pat s = Some i \<Longrightarrow>
     startsWith pat (drop i s) \<and> (\<forall>j < i. \<not> startsWith pat (drop j s))"
proof (induction s arbitrary: i)
  case Nil
  then show ?case by (auto simp: startsWith_def split: if_splits)
next
  case (Cons c cs)
  show ?case
  proof (cases "startsWith pat (c # cs)")
    case True
    with Cons.prems show ?thesis by simp
  next
    case False
    with Cons.prems obtain k where k: "indexOf pat cs = Some k" and i: "i = Suc k"
      by auto
    from Cons.IH [OF k] have a: "startsWith pat (drop k cs)"
      and b: "\<forall>j < k. \<not> startsWith pat (drop j cs)" by simp_all
    have "\<not> startsWith pat (drop j (c # cs))" if "j < Suc k" for j
      using that False b by (cases j) simp_all
    with a i show ?thesis by simp
  qed
qed

lemma norm_examples:
  "toLowerCase (trim '' Apple '') = ''apple''"
  "toLowerCase (trim ''BANANA'') = ''banana''"
  "trim ''happy'' = ''happy''" "toLowerCase ''happy'' = ''happy''"
  "trim ''glad'' = ''glad''" "toLowerCase ''glad'' = ''glad''"
  "trim ''zebra'' = ''zebra''" "toLowerCase ''zebra'' = ''zebra''"
  "toLowerCase ''Paris'' = ''paris''"
  "toLowerCase (trim ''constructor'') = ''constructor''"
  by code_simp+

section \<open>The compiler: what one line contributes\<close>

text \<open>
  Claim C8. A line whose word-count field is not a base-16 number (\<open>parseInt\<close>
  returns \<open>NaN\<close>) or decodes to zero is skipped: the state of the run after the line,
  the dictionary included, is the state before it, and no error is raised (the model
  of the loop body has no failing branch).
\<close>

theorem zero_or_unparseable_count_skips_line:
  assumes "wcntOf line = None \<or> wcntOf line = Some 0"
  shows "parseLine line st = st"
  using assms by (auto simp: parseLine_def)

lemma count_examples: "wcntOf zero_count_line = Some 0" "wcntOf bad_count_line = None"
  unfolding zero_count_line_def bad_count_line_def by code_simp+

text \<open>
  Witness for C8: a record with word count \<open>00\<close> and one with the field \<open>zz\<close> leave
  the empty dictionary as it is.
\<close>

theorem zero_or_unparseable_count_skips_line_witness:
  "wcntOf zero_count_line = Some 0 \<and> parseLine zero_count_line initial_build = initial_build
   \<and> wcntOf bad_count_line = None \<and> parseLine bad_count_line initial_build = initial_build"
  using count_examples
    zero_or_unparseable_count_skips_line [of zero_count_line initial_build]
    zero_or_unparseable_count_skips_line [of bad_count_line initial_build]
  by simp

text \<open>A negative count is skipped as well.\<close>

lemma negative_count_skips_line:
  "wcntOf line = Some n \<Longrightarrow> n \<le> 0 \<Longrightarrow> parseLine line st = st"
  by (simp add: parseLine_def)

subsection \<open>The words and the gloss of a line\<close>

lemma extractWords_tokens:
  assumes "\<forall>i < nat n. 2 * i < length r \<and> r ! (2 * i) \<noteq> []"
  shows "extractWords n r = map (\<lambda>i. replaceUnderscores (r ! (2 * i))) [0..<nat n]"
proof -
  have e1: "map (\<lambda>i. case nth_opt r (i * 2) of None \<Rightarrow> []
                 | Some w \<Rightarrow> if w = [] then [] else [replaceUnderscores w]) [0..<nat n]
        = map (\<lambda>i. [replaceUnderscores (r ! (2 * i))]) [0..<nat n]"
    using assms by (intro map_cong) (auto simp: nth_opt_def mult.commute)
  have e2: "concat (map (\<lambda>i. [g i]) xs) = map g xs" for g :: "nat \<Rightarrow> string" and xs
    by (induction xs) simp_all
  show ?thesis
    by (simp only: extractWords_def e1 e2)
qed

lemma length_extractWords: "length (extractWords n r) \<le> nat n"
proof -
  have "length (concat (map (\<lambda>i. case nth_opt r (i * 2) of None \<Rightarrow> []
                 | Some w \<Rightarrow> if w = [] then [] else [replaceUnderscores w]) xs)) \<le> length xs" for xs
    by (induction xs) (auto split: option.splits)
  from this [of "[0..<nat n]"] show ?thesis
    by (simp add: extractWords_def)
qed

lemma glossOf_first_pipe:
  assumes "indexOf '' | '' line = Some i"
  shows "glossOf line = trim (drop (i + 3) line)"
    and "take 3 (drop i line) = '' | ''"
    and "\<forall>j < i. take 3 (drop j line) \<noteq> '' | ''"
  using indexOf_first [OF assms] assms
  by (simp_all add: glossOf_def startsWith_def numeral_3_eq_3)

subsection \<open>The senses a line appends\<close>

lemma sensesAt_addSense:
  "sensesAt (addSense k pk s st) key p =
     sensesAt st key p @ (if key = k \<and> p = pk then [s] else [])"
  by (auto simp: sensesAt_def addSense_def pushSense_def split: option.splits)

lemma sensesAt_addWords:
  "sensesAt (addWords pk gloss words ws st) key p =
     sensesAt st key p @
       (if p = pk then map (senseFor gloss words) (filter (\<lambda>w. normalize w = key) ws) else [])"
  unfolding addWords_def
  by (induction ws arbitrary: st) (auto simp: sensesAt_addSense)

text \<open>For a key that is not an inherited name, \<open>sensesAt\<close> reads the own property.\<close>

lemma sensesAt_own:
  "key \<notin> set objectPrototypeNames \<Longrightarrow>
     sensesAt st key p = (case sensesOf (dictionary st) key p of None \<Rightarrow> [] | Some l \<Rightarrow> l)"
  by (simp add: sensesAt_def sensesOf_def split: option.splits)

text \<open>
  What a line contributes, in general. Take a line that the loop does not skip (not
  empty, not indented by two spaces), whose word count decodes to \<open>n \<ge> 1\<close> and whose
  synset type gives the part-of-speech key \<open>pk\<close>. Then for every key and part of
  speech, the array \<open>dictionary[key][p]\<close> after the line is the array before it
  followed, when \<open>p = pk\<close>, by one sense record for each extracted word whose lowercased
  form is \<open>key\<close>, in order; the record's definition is the gloss and its synonyms are
  the extracted words that differ from that word when both are lowercased, in their
  original casing. The extracted words are at most \<open>n\<close>, and when the line has a
  non-empty token at each of the \<open>n\<close> word positions they are exactly these tokens with
  underscores replaced by spaces. The gloss is the trimmed text after the first
  \<open>" | "\<close>. Here \<open>dictionary[key][p]\<close> is read as JavaScript reads it: for the key
  \<open>constructor\<close> the array is a property of the inherited function, not of the
  dictionary.
\<close>

lemma data_line_appends_senses:
  assumes "line \<noteq> []" and "\<not> startsWith ''  '' line"
    and "wcntOf line = Some n" and "1 \<le> n"
    and "posKeyOf (ss_type line) = Some pk"
  shows "sensesAt (parseLine line st) key p =
           sensesAt st key p @
           (if p = pk
            then map (\<lambda>w. \<lparr>definition_text = glossOf line,
                           synonyms = filter (\<lambda>x. toLowerCase x \<noteq> toLowerCase w)
                                        (extractWords n (rest line))\<rparr>)
                     (filter (\<lambda>w. toLowerCase w = key) (extractWords n (rest line)))
            else [])
         \<and> length (extractWords n (rest line)) \<le> nat n
         \<and> ((\<forall>i < nat n. 2 * i < length (rest line) \<and> rest line ! (2 * i) \<noteq> []) \<longrightarrow>
              extractWords n (rest line)
                = map (\<lambda>i. replaceUnderscores (rest line ! (2 * i))) [0..<nat n])
         \<and> (\<forall>i. indexOf '' | '' line = Some i \<longrightarrow>
              glossOf line = trim (drop (i + 3) line) \<and> take 3 (drop i line) = '' | ''
              \<and> (\<forall>j < i. take 3 (drop j line) \<noteq> '' | ''))"
proof -
  from assms have "parseLine line st =
      addWords pk (glossOf line) (extractWords n (rest line)) (extractWords n (rest line)) st"
    by (simp add: parseLine_def Let_def)
  then have appended: "sensesAt (parseLine line st) key p =
           sensesAt st key p @
           (if p = pk
            then map (\<lambda>w. \<lparr>definition_text = glossOf line,
                           synonyms = filter (\<lambda>x. toLowerCase x \<noteq> toLowerCase w)
                                        (extractWords n (rest line))\<rparr>)
                     (filter (\<lambda>w. toLowerCase w = key) (extractWords n (rest line)))
            else [])"
    by (simp add: sensesAt_addWords senseFor_def normalize_def)
  have at_most: "length (extractWords n (rest line)) \<le> nat n"
    by (rule length_extractWords)
  have tokens: "(\<forall>i < nat n. 2 * i < length (rest line) \<and> rest line ! (2 * i) \<noteq> []) \<longrightarrow>
      extractWords n (rest line)
        = map (\<lambda>i. replaceUnderscores (rest line ! (2 * i))) [0..<nat n]"
    using extractWords_tokens [of n "rest line"] by blast
  have gloss: "\<forall>i. indexOf '' | '' line = Some i \<longrightarrow>
      glossOf line = trim (drop (i + 3) line) \<and> take 3 (drop i line) = '' | ''
      \<and> (\<forall>j < i. take 3 (drop j line) \<noteq> '' | '')"
    using glossOf_first_pipe [of line] by blast
  from appended at_most tokens gloss show ?thesis
    by (intro conjI)
qed

text \<open>For every key that is not an inherited name, the same holds of the own entries.\<close>

lemma data_line_own_senses:
  assumes "line \<noteq> []" and "\<not> startsWith ''  '' line"
    and "wcntOf line = Some n" and "1 \<le> n"
    and "posKeyOf (ss_type line) = Some pk"
    and "key \<notin> set objectPrototypeNames"
  shows "(case sensesOf (dictionary (parseLine line st)) key p of None \<Rightarrow> [] | Some l \<Rightarrow> l) =
           (case sensesOf (dictionary st) key p of None \<Rightarrow> [] | Some l \<Rightarrow> l) @
           (if p = pk
            then map (\<lambda>w. \<lparr>definition_text = glossOf line,
                           synonyms = filter (\<lambda>x. toLowerCase x \<noteq> toLowerCase w)
                                        (extractWords n (rest line))\<rparr>)
                     (filter (\<lambda>w. toLowerCase w = key) (extractWords n (rest line)))
            else [])"
  using data_line_appends_senses [OF assms(1-5), THEN conjunct1, of st key p]
  by (simp only: sensesAt_own [OF assms(6)])

lemma example_line_fields:
  "example_line \<noteq> []" "\<not> startsWith ''  '' example_line" "wcntOf example_line = Some 2"
  "posKeyOf (ss_type example_line) = Some Adj"
  "extractWords 2 (rest example_line) = [''happy'', ''glad'']"
  "glossOf example_line = ''feeling joy''"
  unfolding example_line_def by code_simp+

text \<open>
  The record \<open>02 happy 0 glad 0 | feeling joy\<close> of type \<open>a\<close>, compiled into the empty
  dictionary, gives \<open>happy.adj\<close> the sense with synonym \<open>glad\<close> and \<open>glad.adj\<close> the
  sense with synonym \<open>happy\<close>, both as own entries of the dictionary.
\<close>

lemma example_line_senses:
  "example_line \<noteq> [] \<and> \<not> startsWith ''  '' example_line
   \<and> wcntOf example_line = Some 2 \<and> (1::int) \<le> 2
   \<and> posKeyOf (ss_type example_line) = Some Adj
   \<and> extractWords 2 (rest example_line) = [''happy'', ''glad'']
   \<and> glossOf example_line = ''feeling joy''
   \<and> sensesAt (parseLine example_line initial_build) ''happy'' Adj
       = [\<lparr>definition_text = ''feeling joy'', synonyms = [''glad'']\<rparr>]
   \<and> sensesAt (parseLine example_line initial_build) ''glad'' Adj
       = [\<lparr>definition_text = ''feeling joy'', synonyms = [''happy'']\<rparr>]"
proof -
  have n: "(1::int) \<le> 2" by simp
  have e: "sensesAt initial_build k p = []" for k p
    by (simp add: sensesAt_def initial_build_def)
  note t = data_line_appends_senses [OF example_line_fields(1) example_line_fields(2)
      example_line_fields(3) n example_line_fields(4), THEN conjunct1]
  from t [of initial_build "''happy''" Adj] t [of initial_build "''glad''" Adj]
  show ?thesis
    by (simp add: example_line_fields norm_examples e)
qed

lemma example_line_own_entries:
  "sensesOf (dictionary (parseLine example_line initial_build)) ''happy'' Adj
     = Some [\<lparr>definition_text = ''feeling joy'', synonyms = [''glad'']\<rparr>]"
  "sensesOf (dictionary (parseLine example_line initial_build)) ''glad'' Adj
     = Some [\<lparr>definition_text = ''feeling joy'', synonyms = [''happy'']\<rparr>]"
  unfolding example_line_def by code_simp+

lemma builder_line_fields:
  "wcntOf builder_line = Some 2"
  "posKeyOf (ss_type builder_line) = Some Noun"
  "extractWords 2 (rest builder_line) = [''builder'', ''constructor'']"
  unfolding builder_line_def by code_simp+

lemma builder_line_result:
  "sensesOf (dictionary (parseLine builder_line initial_build)) ''builder'' Noun
     = Some [\<lparr>definition_text = ''someone who supervises construction'',
              synonyms = [''constructor'']\<rparr>]"
  "dictionary (parseLine builder_line initial_build) ''constructor'' = None"
  "inherited (parseLine builder_line initial_build) ''constructor'' Noun
     = Some [\<lparr>definition_text = ''someone who supervises construction'',
              synonyms = [''builder'']\<rparr>]"
  "artifact builder_files ''constructor'' = None"
  unfolding builder_line_def builder_files_def by code_simp+

text \<open>
  Claim C1, evaluated where the code departs from it. The noun record
  \<open>02 builder 0 constructor 0\<close> has word count 2 and the words \<open>builder\<close> and
  \<open>constructor\<close>. The sense for \<open>builder\<close> is appended under \<open>builder.noun\<close>, as the claim
  says. For \<open>constructor\<close> the check \<open>!dictionary[key]\<close> finds the inherited
  \<open>Object.prototype.constructor\<close>, so no entry is created: the sense record is pushed
  onto a \<open>noun\<close> array of that inherited function, the dictionary has no key
  \<open>constructor\<close> after the line, and neither has the compiled artifact.
\<close>

theorem constructor_sense_is_not_in_dictionary:
  "wcntOf builder_line = Some 2
   \<and> posKeyOf (ss_type builder_line) = Some Noun
   \<and> extractWords 2 (rest builder_line) = [''builder'', ''constructor'']
   \<and> sensesOf (dictionary (parseLine builder_line initial_build)) ''builder'' Noun
       = Some [\<lparr>definition_text = ''someone who supervises construction'',
                synonyms = [''constructor'']\<rparr>]
   \<and> dictionary (parseLine builder_line initial_build) ''constructor'' = None
   \<and> inherited (parseLine builder_line initial_build) ''constructor'' Noun
       = Some [\<lparr>definition_text = ''someone who supervises construction'',
                synonyms = [''builder'']\<rparr>]
   \<and> artifact builder_files ''constructor'' = None"
  by (simp add: builder_line_fields builder_line_result)

section \<open>The compiler: synonyms and keys of the artifact\<close>

lemma no_underscore_replaceUnderscores: "CHR ''_'' \<notin> set (replaceUnderscores w)"
  by (auto simp: replaceUnderscores_def)

lemma no_underscore_extractWords:
  "w \<in> set (extractWords n r) \<Longrightarrow> CHR ''_'' \<notin> set w"
  by (auto simp: extractWords_def no_underscore_replaceUnderscores
      split: option.splits if_splits)

text \<open>
  A key is lowercased and has no underscore, so the only inherited name it can be is
  \<open>constructor\<close>: every other name has a capital letter or an underscore.
\<close>

lemma inherited_key_constructor:
  assumes "k \<in> set objectPrototypeNames" and "toLowerCase k = k" and "CHR ''_'' \<notin> set k"
  shows "k = ''constructor''"
proof -
  have l: "toLowerCase ''hasOwnProperty'' \<noteq> ''hasOwnProperty''"
    "toLowerCase ''isPrototypeOf'' \<noteq> ''isPrototypeOf''"
    "toLowerCase ''propertyIsEnumerable'' \<noteq> ''propertyIsEnumerable''"
    "toLowerCase ''toString'' \<noteq> ''toString''"
    "toLowerCase ''valueOf'' \<noteq> ''valueOf''"
    "toLowerCase ''toLocaleString'' \<noteq> ''toLocaleString''"
    by code_simp+
  from assms l show ?thesis
    by (auto simp: objectPrototypeNames_def)
qed

lemma word_key:
  assumes "w \<in> set (extractWords n r)"
  shows "normalize w \<notin> set objectPrototypeNames \<or> normalize w = ''constructor''"
proof -
  from assms have "CHR ''_'' \<notin> set (normalize w)"
    by (simp add: normalize_def underscore_toLowerCase no_underscore_extractWords)
  moreover have "toLowerCase (normalize w) = normalize w"
    by (simp add: normalize_def toLowerCase_idem)
  ultimately show ?thesis
    using inherited_key_constructor by blast
qed

lemma sensesOf_addSense:
  "sensesOf (dictionary (addSense k pk s st)) key p = Some ss \<Longrightarrow>
     sensesOf (dictionary st) key p = Some ss \<or>
     (\<exists>old. ss = old @ [s] \<and> (old = [] \<or> sensesOf (dictionary st) key p = Some old))"
  by (auto simp: sensesOf_def addSense_def pushSense_def split: option.splits if_splits)

lemma allSynonyms_addSense:
  "allSynonyms (dictionary (addSense k pk s st))
     \<subseteq> allSynonyms (dictionary st) \<union> set (synonyms s)"
proof
  fix x assume "x \<in> allSynonyms (dictionary (addSense k pk s st))"
  then obtain key p ss s' where a: "sensesOf (dictionary (addSense k pk s st)) key p = Some ss"
    and b: "s' \<in> set ss" and c: "x \<in> set (synonyms s')"
    by (auto simp: allSynonyms_def)
  from sensesOf_addSense [OF a] consider
    (kept) "sensesOf (dictionary st) key p = Some ss"
    | (pushed) old where "ss = old @ [s]"
        and "old = [] \<or> sensesOf (dictionary st) key p = Some old"
    by blast
  then show "x \<in> allSynonyms (dictionary st) \<union> set (synonyms s)"
  proof cases
    case kept
    with b c have "x \<in> allSynonyms (dictionary st)"
      unfolding allSynonyms_def by blast
    then show ?thesis by simp
  next
    case pushed
    with b have "s' = s \<or> (s' \<in> set old \<and> sensesOf (dictionary st) key p = Some old)"
      by auto
    then show ?thesis
    proof
      assume "s' = s"
      with c show ?thesis by simp
    next
      assume "s' \<in> set old \<and> sensesOf (dictionary st) key p = Some old"
      with c have "x \<in> allSynonyms (dictionary st)"
        unfolding allSynonyms_def by blast
      then show ?thesis by simp
    qed
  qed
qed

lemma dom_addSense:
  "dom (dictionary st) \<subseteq> dom (dictionary (addSense k pk s st))"
  "k \<notin> set objectPrototypeNames \<Longrightarrow> k \<in> dom (dictionary (addSense k pk s st))"
  by (auto simp: addSense_def split: option.splits)

lemma addWords_Cons:
  "addWords pk g words (v # vs) st =
     addWords pk g words vs (addSense (normalize v) pk (senseFor g words v) st)"
  by (simp add: addWords_def)

lemma allSynonyms_addWords:
  "allSynonyms (dictionary (addWords pk g words ws st))
     \<subseteq> allSynonyms (dictionary st) \<union> set words"
proof (induction ws arbitrary: st)
  case Nil
  then show ?case by (simp add: addWords_def)
next
  case (Cons w ws)
  have "allSynonyms (dictionary (addWords pk g words (w # ws) st))
      \<subseteq> allSynonyms (dictionary (addSense (normalize w) pk (senseFor g words w) st))
          \<union> set words"
    unfolding addWords_Cons by (rule Cons.IH)
  also have "\<dots> \<subseteq> (allSynonyms (dictionary st) \<union> set (synonyms (senseFor g words w)))
      \<union> set words"
    using allSynonyms_addSense by blast
  also have "\<dots> \<subseteq> allSynonyms (dictionary st) \<union> set words"
    by (auto simp: senseFor_def)
  finally show ?case .
qed

lemma dom_addWords_mono:
  "dom (dictionary st) \<subseteq> dom (dictionary (addWords pk g words ws st))"
proof (induction ws arbitrary: st)
  case Nil
  then show ?case by (simp add: addWords_def)
next
  case (Cons v vs)
  from dom_addSense(1) Cons.IH show ?case
    unfolding addWords_Cons by blast
qed

lemma dom_addWords_key:
  "w \<in> set ws \<Longrightarrow> normalize w \<notin> set objectPrototypeNames \<Longrightarrow>
     normalize w \<in> dom (dictionary (addWords pk g words ws st))"
proof (induction ws arbitrary: st)
  case Nil
  then show ?case by simp
next
  case (Cons v vs)
  show ?case
  proof (cases "w = v")
    case True
    with Cons.prems
    have "normalize w \<in> dom (dictionary (addSense (normalize v) pk (senseFor g words v) st))"
      by (simp add: dom_addSense(2))
    with dom_addWords_mono show ?thesis
      unfolding addWords_Cons by blast
  next
    case False
    with Cons show ?thesis
      unfolding addWords_Cons by simp
  qed
qed

lemma synonymsAreKeys_parseLine:
  assumes "synonymsAreKeys st"
  shows "synonymsAreKeys (parseLine line st)"
proof -
  have "synonymsAreKeys (addWords pk g (extractWords n r) (extractWords n r) st)" for pk g n r
    unfolding synonymsAreKeys_def
  proof
    fix x
    let ?ws = "extractWords n r"
    let ?st = "addWords pk g ?ws ?ws st"
    assume "x \<in> allSynonyms (dictionary ?st)"
    with allSynonyms_addWords have "x \<in> allSynonyms (dictionary st) \<or> x \<in> set ?ws"
      by blast
    then show "toLowerCase x \<in> dom (dictionary ?st) \<or> toLowerCase x = ''constructor''"
    proof
      assume "x \<in> allSynonyms (dictionary st)"
      with assms have "toLowerCase x \<in> dom (dictionary st) \<or> toLowerCase x = ''constructor''"
        by (simp add: synonymsAreKeys_def)
      with dom_addWords_mono show ?thesis by blast
    next
      assume x: "x \<in> set ?ws"
      have "normalize x \<notin> set objectPrototypeNames \<Longrightarrow> normalize x \<in> dom (dictionary ?st)"
        using x by (rule dom_addWords_key)
      with word_key [OF x] show ?thesis
        by (auto simp: normalize_def)
    qed
  qed
  with assms show ?thesis
    by (simp add: parseLine_def Let_def split: option.splits)
qed

lemma synonymsAreKeys_lines:
  "synonymsAreKeys st \<Longrightarrow> synonymsAreKeys (foldl (\<lambda>st line. parseLine line st) st ls)"
  by (induction ls arbitrary: st) (simp_all add: synonymsAreKeys_parseLine)

lemma synonymsAreKeys_parseDataFile:
  "synonymsAreKeys st \<Longrightarrow> synonymsAreKeys (parseDataFile fs pos st)"
  by (simp add: parseDataFile_def synonymsAreKeys_lines split: option.splits)

lemma synonymsAreKeys_compile: "synonymsAreKeys (compile fs)"
proof -
  have "synonymsAreKeys initial_build"
    by (simp add: synonymsAreKeys_def allSynonyms_def sensesOf_def initial_build_def)
  then show ?thesis
    by (simp add: compile_def synonymsAreKeys_parseDataFile)
qed

lemma paris_artifact:
  "sensesOf (artifact paris_files) ''city of light'' Noun
     = Some [\<lparr>definition_text = ''the capital of France'', synonyms = [''Paris'']\<rparr>]"
  "artifact paris_files ''Paris'' = None"
  "artifact paris_files ''paris'' \<noteq> None"
  unfolding paris_files_def by code_simp+

text \<open>
  Claim C6, as stated, fails: synonyms keep the casing of the source record while keys
  are lowercased. A noun file with the record \<open>02 Paris 0 City_of_Light 0\<close> compiles to
  an artifact where \<open>Paris\<close> is a synonym under \<open>city of light\<close> and is not a key.
\<close>

theorem synonym_casing_counterexample:
  "sensesOf (artifact paris_files) ''city of light'' Noun
     = Some [\<lparr>definition_text = ''the capital of France'', synonyms = [''Paris'']\<rparr>]
   \<and> artifact paris_files ''Paris'' = None"
  by (simp add: paris_artifact)

text \<open>
  Claim C6, amended. For every set of data files, every key and part-of-speech group of
  the compiled artifact and every string in a synonyms array of that group, the
  lowercased form of the string is a top-level key of the artifact, provided that
  lowercased form is not \<open>constructor\<close>.
\<close>

theorem synonyms_are_keys_up_to_case:
  assumes "sensesOf (artifact fs) k p = Some ss" and "s \<in> set ss"
    and "x \<in> set (synonyms s)" and "toLowerCase x \<noteq> ''constructor''"
  shows "artifact fs (toLowerCase x) \<noteq> None"
proof -
  from assms(1-3) have "x \<in> allSynonyms (dictionary (compile fs))"
    by (auto simp: allSynonyms_def artifact_def)
  with synonymsAreKeys_compile [of fs] assms(4) show ?thesis
    by (auto simp: synonymsAreKeys_def artifact_def)
qed

text \<open>
  Witness for the amended C6: in the artifact above, the synonym \<open>Paris\<close> of
  \<open>city of light\<close> is found under the key \<open>paris\<close>.
\<close>

theorem synonyms_are_keys_up_to_case_witness:
  "sensesOf (artifact paris_files) ''city of light'' Noun
     = Some [\<lparr>definition_text = ''the capital of France'', synonyms = [''Paris'']\<rparr>]
   \<and> toLowerCase ''Paris'' = ''paris'' \<and> ''paris'' \<noteq> ''constructor''
   \<and> artifact paris_files ''paris'' \<noteq> None"
proof -
  have l: "toLowerCase ''Paris'' = ''paris''"
    by (rule norm_examples)
  have "artifact paris_files (toLowerCase ''Paris'') \<noteq> None"
    using synonyms_are_keys_up_to_case [OF paris_artifact(1),
        of "\<lparr>definition_text = ''the capital of France'', synonyms = [''Paris'']\<rparr>" "''Paris''"]
    by (simp add: l)
  with l show ?thesis
    by (simp add: paris_artifact(1))
qed

section \<open>The compiler: a missing data file\<close>

lemma parseDataFile_missing:
  "fs (dataPath pos) = None \<Longrightarrow> parseDataFile fs pos st = st"
  by (simp add: parseDataFile_def)

lemma warnings_addSense: "warnings (addSense k pk s st) = warnings st"
  by (simp add: addSense_def split: option.splits)

lemma warnings_addWords: "warnings (addWords pk g words ws st) = warnings st"
  unfolding addWords_def by (induction ws arbitrary: st) (simp_all add: warnings_addSense)

lemma warnings_parseLine: "warnings (parseLine line st) = warnings st"
  by (simp add: parseLine_def Let_def warnings_addWords split: option.splits)

lemma warnings_lines: "warnings (foldl (\<lambda>st line. parseLine line st) st ls) = warnings st"
  by (induction ls arbitrary: st) (simp_all add: warnings_parseLine)

lemma warnings_parseDataFile: "warnings (parseDataFile fs pos st) = warnings st"
  by (simp add: parseDataFile_def warnings_lines split: option.splits)

text \<open>No run of the compiler calls \<open>console.warn\<close>, whatever files are there.\<close>

lemma warnings_compile: "warnings (compile fs) = []"
  by (simp add: compile_def warnings_parseDataFile initial_build_def)

text \<open>
  Claim C9, evaluated where the code departs from it. With only \<open>data.verb\<close> present,
  \<open>parseDataFile\<close> for the missing noun file returns with the state unchanged and the
  run goes on to compile the verb file, as the claim says; but no warning is logged,
  neither by that call nor by the whole run.
\<close>

theorem missing_data_file_is_skipped_silently:
  "verb_only_files (dataPath ''noun'') = None
   \<and> parseDataFile verb_only_files ''noun'' initial_build = initial_build
   \<and> warnings (parseDataFile verb_only_files ''noun'' initial_build) = []
   \<and> warnings (compile verb_only_files) = []
   \<and> sensesOf (artifact verb_only_files) ''run'' Verb
       = Some [\<lparr>definition_text = ''move fast'', synonyms = []\<rparr>]"
proof -
  have m: "verb_only_files (dataPath ''noun'') = None"
    by (simp add: verb_only_files_def dataPath_def)
  have s: "sensesOf (artifact verb_only_files) ''run'' Verb
       = Some [\<lparr>definition_text = ''move fast'', synonyms = []\<rparr>]"
    unfolding verb_only_files_def by code_simp
  from m s show ?thesis
    by (simp add: parseDataFile_missing warnings_compile initial_build_def)
qed

section \<open>The client: history recording\<close>

lemma historyRef_pushHistory:
  "historyRef (pushHistory trm st) =
     (if trm = [] \<or> (historyRef st \<noteq> [] \<and> last (historyRef st) = trm) then historyRef st
      else if length (historyRef st) < 100 then historyRef st @ [trm]
      else tl (historyRef st @ [trm]))"
  by (auto simp: pushHistory_def Let_def)

lemma history_pushHistory:
  "history (pushHistory trm st) =
     (if trm = [] \<or> (historyRef st \<noteq> [] \<and> last (historyRef st) = trm) then history st
      else if length (historyRef st) < 100 then historyRef st @ [trm]
      else tl (historyRef st @ [trm]))"
  by (auto simp: pushHistory_def Let_def)

lemma pushHistory_frame:
  "app_dictionary (pushHistory trm st) = app_dictionary st"
  "loading (pushHistory trm st) = loading st"
  "word (pushHistory trm st) = word st"
  "result (pushHistory trm st) = result st"
  "error (pushHistory trm st) = error st"
  by (simp_all add: pushHistory_def Let_def)

lemma historyRef_doSearch:
  "historyRef (doSearch word_c dictionary_c w st) =
     (let trm = toLowerCase (trim (case w of Some s \<Rightarrow> s | None \<Rightarrow> word_c)) in
      if trm = [] \<or> dictionary_c = None then historyRef st
      else historyRef (pushHistory trm st))"
  by (auto simp: doSearch_def Let_def historyRef_pushHistory split: option.splits)

lemma history_doSearch:
  "history (doSearch word_c dictionary_c w st) =
     (let trm = toLowerCase (trim (case w of Some s \<Rightarrow> s | None \<Rightarrow> word_c)) in
      if trm = [] \<or> dictionary_c = None then history st
      else history (pushHistory trm st))"
  by (auto simp: doSearch_def Let_def history_pushHistory split: option.splits)

lemma doSearch_frame:
  "app_dictionary (doSearch word_c dictionary_c w st) = app_dictionary st"
  "loading (doSearch word_c dictionary_c w st) = loading st"
  "word (doSearch word_c dictionary_c w st) = word st"
  by (simp_all add: doSearch_def Let_def pushHistory_frame split: option.splits)

lemma example_states:
  "historyRef shown_state = [''happy'']" "history shown_state = [''happy'']"
  "historyRef two_state = [''apple'', ''banana'']"
  "historyRef nav_state = [''apple'', ''banana'', ''cherry'']"
  "historyIndex nav_state = - 1" "result nav_state = None"
  "app_dictionary loaded_state = Some example_lexicon" "historyRef loaded_state = []"
  "historyRef full_state = full_history"
  by (simp_all add: shown_state_def two_state_def nav_state_def full_state_def
      loaded_state_def initial_app_def)

text \<open>
  Claim C4. Pushing a non-empty term equal to the most recent entry leaves the history
  (ref and React state) unchanged; pushing a non-empty term that differs from the most
  recent entry, or onto the empty history, appends it, whether or not it occurs
  earlier, and drops the oldest entry when there were 100 already. With a loaded
  Lexicon and an empty history, querying \<open>a\<close> twice records its normalized form once,
  and querying \<open>a\<close>, \<open>b\<close>, \<open>a\<close> with different normalized forms records
  \<open>[A, B, A]\<close>. (\<open>pushHistory\<close> returns at once on the empty term, which \<open>doSearch\<close> never
  passes.)
\<close>

theorem immediate_duplicate_suppression:
  "(trm \<noteq> [] \<and> historyRef st \<noteq> [] \<and> last (historyRef st) = trm \<longrightarrow>
      historyRef (pushHistory trm st) = historyRef st
      \<and> history (pushHistory trm st) = history st)
   \<and> (trm \<noteq> [] \<and> (historyRef st = [] \<or> last (historyRef st) \<noteq> trm) \<longrightarrow>
      historyRef (pushHistory trm st) =
        (if length (historyRef st) < 100 then historyRef st @ [trm]
         else tl (historyRef st) @ [trm])
      \<and> history (pushHistory trm st) = historyRef (pushHistory trm st))
   \<and> (app_dictionary st = Some d \<and> historyRef st = [] \<and>
       toLowerCase (trim a) \<noteq> [] \<and> toLowerCase (trim b) \<noteq> [] \<and>
       toLowerCase (trim a) \<noteq> toLowerCase (trim b) \<longrightarrow>
      historyRef (search (Some a) (search (Some a) st)) = [toLowerCase (trim a)]
      \<and> historyRef (search (Some a) (search (Some b) (search (Some a) st)))
          = [toLowerCase (trim a), toLowerCase (trim b), toLowerCase (trim a)])"
proof (intro conjI impI)
  assume "trm \<noteq> [] \<and> historyRef st \<noteq> [] \<and> last (historyRef st) = trm"
  then show "historyRef (pushHistory trm st) = historyRef st"
    and "history (pushHistory trm st) = history st"
    by (simp_all add: historyRef_pushHistory history_pushHistory)
next
  assume a: "trm \<noteq> [] \<and> (historyRef st = [] \<or> last (historyRef st) \<noteq> trm)"
  then show "historyRef (pushHistory trm st) =
        (if length (historyRef st) < 100 then historyRef st @ [trm]
         else tl (historyRef st) @ [trm])"
    by (cases "historyRef st") (auto simp: historyRef_pushHistory)
  from a show "history (pushHistory trm st) = historyRef (pushHistory trm st)"
    by (auto simp: historyRef_pushHistory history_pushHistory)
next
  assume a: "app_dictionary st = Some d \<and> historyRef st = [] \<and>
       toLowerCase (trim a) \<noteq> [] \<and> toLowerCase (trim b) \<noteq> [] \<and>
       toLowerCase (trim a) \<noteq> toLowerCase (trim b)"
  then show "historyRef (search (Some a) (search (Some a) st)) = [toLowerCase (trim a)]"
    by (simp add: search_def historyRef_doSearch doSearch_frame historyRef_pushHistory Let_def)
  from a show "historyRef (search (Some a) (search (Some b) (search (Some a) st)))
          = [toLowerCase (trim a), toLowerCase (trim b), toLowerCase (trim a)]"
    by (auto simp: search_def historyRef_doSearch doSearch_frame historyRef_pushHistory Let_def)
qed

text \<open>
  Witness for C4: \<open>happy\<close> pushed onto \<open>[happy]\<close>, \<open>apple\<close> pushed onto
  \<open>[apple, banana]\<close>, and the queries \<open>" Apple "\<close>, \<open>"BANANA"\<close>, \<open>" Apple "\<close> from the
  empty history.
\<close>

theorem immediate_duplicate_suppression_witness:
  "historyRef shown_state = [''happy'']
   \<and> historyRef (pushHistory ''happy'' shown_state) = [''happy'']
   \<and> historyRef two_state = [''apple'', ''banana'']
   \<and> historyRef (pushHistory ''apple'' two_state) = [''apple'', ''banana'', ''apple'']
   \<and> app_dictionary loaded_state = Some example_lexicon \<and> historyRef loaded_state = []
   \<and> historyRef (search (Some '' Apple '') (search (Some '' Apple '') loaded_state))
       = [''apple'']
   \<and> historyRef (search (Some '' Apple '')
         (search (Some ''BANANA'') (search (Some '' Apple '') loaded_state)))
       = [''apple'', ''banana'', ''apple'']"
proof -
  from immediate_duplicate_suppression [of "''happy''" shown_state, THEN conjunct1]
    immediate_duplicate_suppression [of "''apple''" two_state, THEN conjunct2, THEN conjunct1]
    immediate_duplicate_suppression [of _ loaded_state example_lexicon "'' Apple ''" "''BANANA''",
      THEN conjunct2, THEN conjunct2]
  show ?thesis
    by (simp add: example_states norm_examples)
qed

subsection \<open>The bound and the invariant\<close>

lemma length_pushHistory:
  "length (historyRef st) \<le> 100 \<Longrightarrow> length (historyRef (pushHistory trm st)) \<le> 100"
  by (auto simp: historyRef_pushHistory)

lemma length_pushes:
  "length (historyRef st) \<le> 100 \<Longrightarrow>
   length (historyRef (foldl (\<lambda>s t. pushHistory t s) st ts)) \<le> 100"
  by (induction ts arbitrary: st) (simp_all add: length_pushHistory)

lemma historyOk_pushHistory:
  assumes "historyOk st" and "trim trm = trm" and "toLowerCase trm = trm"
  shows "historyOk (pushHistory trm st)"
proof -
  have "set (tl (historyRef st @ [trm])) \<subseteq> insert trm (set (historyRef st))"
    by (cases "historyRef st") auto
  with assms show ?thesis
    by (auto simp: historyOk_def historyRef_pushHistory history_pushHistory list_all_iff)
qed

lemma historyOk_frame:
  "historyRef st' = historyRef st \<Longrightarrow> history st' = history st \<Longrightarrow> historyOk st
     \<Longrightarrow> historyOk st'"
  by (simp add: historyOk_def)

lemma historyOk_doSearch:
  assumes "historyOk st"
  shows "historyOk (doSearch word_c dictionary_c w st)"
proof -
  let ?t = "toLowerCase (trim (case w of Some s \<Rightarrow> s | None \<Rightarrow> word_c))"
  have p: "historyOk (pushHistory ?t st)"
    using assms by (rule historyOk_pushHistory) (rule normalized_fixed)+
  with assms show ?thesis
    by (auto simp: historyRef_doSearch history_doSearch Let_def historyOk_def)
qed

lemma historyOk_word: "historyOk (st\<lparr>word := v\<rparr>) = historyOk st"
  by (simp add: historyOk_def)

lemma historyOk_onKey: "historyOk st \<Longrightarrow> historyOk (onKey k f st)"
  by (cases k) (auto simp: onKey_def historyOk_doSearch arrowUp_def arrowDown_def Let_def
      intro: historyOk_frame)

lemma historyOk_step: "historyOk st \<Longrightarrow> historyOk (step ev st)"
  by (cases ev) (auto simp: step_def search_def onClickSynonym_def historyOk_onKey
      historyOk_word intro: historyOk_doSearch historyOk_frame)

lemma historyOk_steps: "historyOk st \<Longrightarrow> historyOk (foldl (\<lambda>st ev. step ev st) st evs)"
  by (induction evs arbitrary: st) (simp_all add: historyOk_step)

lemma historyOk_run: "historyOk (run evs)"
  unfolding run_def by (rule historyOk_steps) (simp add: historyOk_def initial_app_def)

text \<open>
  Claim C5. The history built by any sequence of pushes from the empty history, and the
  history after any sequence of events of a session, has at most 100 entries. A push of
  a non-empty term that differs from the last entry onto a history of exactly 100
  entries drops the first (oldest) entry and appends the term, so 100 entries remain.
\<close>

theorem history_bounded_fifo:
  "length (historyRef (foldl (\<lambda>s t. pushHistory t s) initial_app ts)) \<le> 100
   \<and> length (historyRef (run evs)) \<le> 100
   \<and> (length (historyRef st) = 100 \<and> trm \<noteq> [] \<and> last (historyRef st) \<noteq> trm \<longrightarrow>
        historyRef (pushHistory trm st) = tl (historyRef st) @ [trm]
        \<and> length (historyRef (pushHistory trm st)) = 100)"
proof (intro conjI impI)
  show "length (historyRef (foldl (\<lambda>s t. pushHistory t s) initial_app ts)) \<le> 100"
    by (rule length_pushes) (simp add: initial_app_def)
  show "length (historyRef (run evs)) \<le> 100"
    using historyOk_run [of evs] by (simp add: historyOk_def)
next
  assume a: "length (historyRef st) = 100 \<and> trm \<noteq> [] \<and> last (historyRef st) \<noteq> trm"
  then have "historyRef st \<noteq> []" by auto
  with a show "historyRef (pushHistory trm st) = tl (historyRef st) @ [trm]"
    by (simp add: historyRef_pushHistory)
  with a show "length (historyRef (pushHistory trm st)) = 100"
    by simp
qed

text \<open>
  Witness for C5: the history \<open>a, aa, aaa, ...\<close> of 100 entries; pushing \<open>b\<close> drops
  \<open>a\<close> and appends \<open>b\<close>.
\<close>

theorem history_bounded_fifo_witness:
  "length (historyRef full_state) = 100 \<and> last (historyRef full_state) \<noteq> ''b''
   \<and> hd (historyRef full_state) = ''a''
   \<and> historyRef (pushHistory ''b'' full_state) = tl full_history @ [''b'']
   \<and> length (historyRef (pushHistory ''b'' full_state)) = 100"
proof -
  have l: "length full_history = 100"
    by (simp add: full_history_def)
  have "last full_history = replicate 100 (CHR ''a'')"
    by (simp add: full_history_def last_map)
  then have "length (last full_history) = 100"
    by simp
  then have d: "last full_history \<noteq> ''b''"
    by auto
  have f: "hd full_history = ''a''"
    by (simp add: full_history_def hd_map upt_rec)
  from history_bounded_fifo [of _ _ full_state "''b''", THEN conjunct2, THEN conjunct2]
    example_states(9) l d f
  show ?thesis
    by simp
qed

lemma set_historyRef_doSearch:
  assumes "t \<in> set (historyRef (doSearch word_c dictionary_c w st))"
  shows "t \<in> set (historyRef st)
     \<or> (t \<noteq> [] \<and> t = toLowerCase (trim (case w of Some s \<Rightarrow> s | None \<Rightarrow> word_c)))"
proof -
  let ?u = "toLowerCase (trim (case w of Some s \<Rightarrow> s | None \<Rightarrow> word_c))"
  have "set (tl (historyRef st @ [?u])) \<subseteq> insert ?u (set (historyRef st))"
    by (cases "historyRef st") auto
  then have "set (historyRef (pushHistory ?u st)) \<subseteq> insert ?u (set (historyRef st))"
    by (auto simp: historyRef_pushHistory)
  with assms show ?thesis
    by (auto simp: historyRef_doSearch Let_def split: if_splits)
qed

text \<open>
  Claim C10. After any sequence of events of a session, every entry of the history (the
  ref and the React state) is a non-empty string equal to its own trimmed form and to
  its own lowercased form. The operations that write to the history, a search (match or
  no match) and a synonym click, keep this property from any state that has it.
\<close>

theorem history_entries_normalized:
  "(\<forall>t \<in> set (historyRef (run evs)). t \<noteq> [] \<and> trim t = t \<and> toLowerCase t = t)
   \<and> (\<forall>t \<in> set (history (run evs)). t \<noteq> [] \<and> trim t = t \<and> toLowerCase t = t)
   \<and> ((\<forall>t \<in> set (historyRef st). t \<noteq> [] \<and> trim t = t \<and> toLowerCase t = t) \<longrightarrow>
        (\<forall>t \<in> set (historyRef (search w st)). t \<noteq> [] \<and> trim t = t \<and> toLowerCase t = t)
        \<and> (\<forall>t \<in> set (historyRef (onClickSynonym syn st)).
              t \<noteq> [] \<and> trim t = t \<and> toLowerCase t = t))"
proof (intro conjI impI)
  from historyOk_run [of evs]
  show "\<forall>t \<in> set (historyRef (run evs)). t \<noteq> [] \<and> trim t = t \<and> toLowerCase t = t"
    and "\<forall>t \<in> set (history (run evs)). t \<noteq> [] \<and> trim t = t \<and> toLowerCase t = t"
    by (simp_all add: historyOk_def list_all_iff)
next
  assume a: "\<forall>t \<in> set (historyRef st). t \<noteq> [] \<and> trim t = t \<and> toLowerCase t = t"
  have keep: "\<forall>t \<in> set (historyRef (doSearch word_c dictionary_c v s)).
      t \<noteq> [] \<and> trim t = t \<and> toLowerCase t = t"
    if "historyRef s = historyRef st" for word_c dictionary_c v s
  proof
    fix t assume "t \<in> set (historyRef (doSearch word_c dictionary_c v s))"
    from set_historyRef_doSearch [OF this] that a normalized_fixed
    show "t \<noteq> [] \<and> trim t = t \<and> toLowerCase t = t"
      by auto
  qed
  show "\<forall>t \<in> set (historyRef (search w st)). t \<noteq> [] \<and> trim t = t \<and> toLowerCase t = t"
    unfolding search_def by (rule keep) simp
  show "\<forall>t \<in> set (historyRef (onClickSynonym syn st)).
      t \<noteq> [] \<and> trim t = t \<and> toLowerCase t = t"
    unfolding onClickSynonym_def search_def by (rule keep) simp
qed

lemma session_history:
  "historyRef (run session_events) = [''happy'', ''glad'', ''zebra'']"
  "history (run session_events) = [''happy'', ''glad'', ''zebra'']"
  unfolding session_events_def example_lexicon_def by code_simp+

text \<open>
  Witness for C10: a session that loads the Lexicon, searches \<open>"  Happy "\<close>, clicks the
  synonym \<open>glad\<close>, searches the unknown word \<open>zebra\<close> twice, presses Enter, searches a
  blank input and presses the up arrow ends with the history \<open>happy, glad, zebra\<close>.
\<close>

theorem history_entries_normalized_witness:
  "historyRef (run session_events) = [''happy'', ''glad'', ''zebra'']
   \<and> history (run session_events) = [''happy'', ''glad'', ''zebra'']
   \<and> trim ''happy'' = ''happy'' \<and> toLowerCase ''happy'' = ''happy''
   \<and> trim ''glad'' = ''glad'' \<and> toLowerCase ''glad'' = ''glad''
   \<and> trim ''zebra'' = ''zebra'' \<and> toLowerCase ''zebra'' = ''zebra''"
  using history_entries_normalized [of session_events, THEN conjunct1]
  by (simp add: session_history)

section \<open>The client: the query operation\<close>

text \<open>
  Claim C2, as stated, fails: an empty query does change the state. From a state that
  shows the entry of \<open>happy\<close>, querying a blank string clears the displayed result.
\<close>

theorem empty_query_counterexample:
  "trim '' '' = [] \<and> result (search (Some '' '') shown_state) \<noteq> result shown_state"
  by (simp add: trim_def isWhiteSpace_def search_def doSearch_def toLowerCase_def
      shown_state_def)

text \<open>
  Claim C2, amended. When the input (the argument, or the query field when no argument
  is passed) is empty after trimming, the query operation sets the error to the
  empty-input message and clears the displayed result, and changes nothing else: the
  history (ref and React state), the recall cursor, the query field and the loaded
  Lexicon are as before.
\<close>

theorem empty_query:
  assumes "trim (case w of Some s \<Rightarrow> s | None \<Rightarrow> word_c) = []"
  shows "doSearch word_c dictionary_c w st
           = st\<lparr>error := ''Please enter a word.'', result := None\<rparr>
         \<and> error (doSearch word_c dictionary_c w st) = ''Please enter a word.''
         \<and> historyRef (doSearch word_c dictionary_c w st) = historyRef st
         \<and> history (doSearch word_c dictionary_c w st) = history st
         \<and> historyIndex (doSearch word_c dictionary_c w st) = historyIndex st
         \<and> word (doSearch word_c dictionary_c w st) = word st
         \<and> app_dictionary (doSearch word_c dictionary_c w st) = app_dictionary st"
  using assms by (simp add: doSearch_def toLowerCase_def)

text \<open>
  Witness for the amended C2: the blank query from the state that shows \<open>happy\<close>.
\<close>

theorem empty_query_witness:
  "trim (case Some '' '' of Some s \<Rightarrow> s | None \<Rightarrow> word shown_state) = []
   \<and> error (search (Some '' '') shown_state) = ''Please enter a word.''
   \<and> historyRef (search (Some '' '') shown_state) = [''happy'']
   \<and> history (search (Some '' '') shown_state) = [''happy'']
   \<and> result (search (Some '' '') shown_state) = None"
proof -
  have h: "trim (case Some '' '' of Some s \<Rightarrow> s | None \<Rightarrow> word shown_state) = []"
    by (simp add: trim_def isWhiteSpace_def)
  from empty_query [OF h, of "app_dictionary shown_state" shown_state] h
  show ?thesis
    by (simp add: search_def example_states)
qed

text \<open>
  A non-empty term that the Lexicon does not have and that is not an inherited name
  gives the no-match state and is pushed onto the history.
\<close>

lemma doSearch_no_match:
  assumes "trm = toLowerCase (trim (case w of Some s \<Rightarrow> s | None \<Rightarrow> word_c))"
    and "trm \<noteq> []" and "d trm = None" and "trm \<notin> set objectPrototypeNames"
  shows "doSearch word_c (Some d) w st
           = pushHistory trm (st\<lparr>result := None, error := ''No match.''\<rparr>)"
  using assms by (simp add: doSearch_def lookupEntry_def Let_def)

text \<open>
  A lowercased term can name only two members of \<open>Object.prototype\<close>, so a search never
  leaves an \<open>InheritedCall\<close> in the result.
\<close>

lemma lowercase_inherited_name:
  assumes "k \<in> set objectPrototypeNames" and "toLowerCase k = k"
  shows "k = ''constructor'' \<or> k = ''__proto__''"
proof -
  have l: "toLowerCase ''hasOwnProperty'' \<noteq> ''hasOwnProperty''"
    "toLowerCase ''isPrototypeOf'' \<noteq> ''isPrototypeOf''"
    "toLowerCase ''propertyIsEnumerable'' \<noteq> ''propertyIsEnumerable''"
    "toLowerCase ''toString'' \<noteq> ''toString''"
    "toLowerCase ''valueOf'' \<noteq> ''valueOf''"
    "toLowerCase ''toLocaleString'' \<noteq> ''toLocaleString''"
    "toLowerCase ''__defineGetter__'' \<noteq> ''__defineGetter__''"
    "toLowerCase ''__defineSetter__'' \<noteq> ''__defineSetter__''"
    "toLowerCase ''__lookupGetter__'' \<noteq> ''__lookupGetter__''"
    "toLowerCase ''__lookupSetter__'' \<noteq> ''__lookupSetter__''"
    by code_simp+
  from assms l show ?thesis
    by (auto simp: objectPrototypeNames_def)
qed

lemma setResult_no_inherited_call:
  assumes "n = ''constructor'' \<or> n = ''__proto__''" and "\<forall>m. prev \<noteq> Some (InheritedCall m)"
  shows "setResult (InheritedMember n) prev \<noteq> Some (InheritedCall k)"
  using assms by (auto simp: setResult_def split: option.splits result_value.splits)

lemma doSearch_no_inherited_call:
  assumes "\<forall>m. result st \<noteq> Some (InheritedCall m)"
  shows "result (doSearch word_c dictionary_c w st) \<noteq> Some (InheritedCall k)"
proof -
  let ?t = "toLowerCase (trim (case w of Some s \<Rightarrow> s | None \<Rightarrow> word_c))"
  have "setResult v (result st) \<noteq> Some (InheritedCall k)"
    if "lookupEntry d ?t = Some v" for d v
  proof (cases v)
    case (OwnEntry e)
    then show ?thesis by (simp add: setResult_def)
  next
    case (InheritedMember n)
    with that have "n = ?t" and "?t \<in> set objectPrototypeNames"
      by (auto simp: lookupEntry_def split: option.splits if_splits)
    with lowercase_inherited_name [of ?t] have "n = ''constructor'' \<or> n = ''__proto__''"
      by (simp add: toLowerCase_idem)
    with assms InheritedMember show ?thesis
      by (simp add: setResult_no_inherited_call)
  qed
  with assms show ?thesis
    by (auto simp: doSearch_def Let_def pushHistory_frame split: option.splits)
qed

text \<open>
  Claim C7, evaluated where the code departs from it. The Lexicon has no entry for
  \<open>constructor\<close>, yet querying it does not give the no-match state: \<open>dictionary[term]\<close>
  finds the inherited function \<open>Object\<close>, so the branch of a match runs. The error is
  empty, and \<open>setResult\<close> applies \<open>Object\<close> to the previous result: with nothing on
  display the result becomes the empty object, and with the entry of \<open>happy\<close> on display
  that entry stays on display. The term is recorded in the history, as the claim says.
\<close>

theorem inherited_name_is_not_reported_as_no_match:
  "example_lexicon ''constructor'' = None
   \<and> toLowerCase (trim ''constructor'') = ''constructor''
   \<and> error (search (Some ''constructor'') loaded_state) = []
   \<and> result (search (Some ''constructor'') loaded_state) = Some (ObjectValue Map.empty)
   \<and> historyRef (search (Some ''constructor'') loaded_state) = [''constructor'']
   \<and> error (search (Some ''constructor'') shown_state) = []
   \<and> result (search (Some ''constructor'') shown_state) = result shown_state
   \<and> result shown_state \<noteq> None
   \<and> historyRef (search (Some ''constructor'') shown_state) = [''happy'', ''constructor'']"
proof -
  have l: "example_lexicon ''constructor'' = None"
    by (simp add: example_lexicon_def)
  have m: "''constructor'' \<in> set objectPrototypeNames"
    by (simp add: objectPrototypeNames_def)
  show ?thesis
    by (simp add: norm_examples l m search_def doSearch_def lookupEntry_def setResult_def
        shown_state_def loaded_state_def initial_app_def pushHistory_def Let_def)
qed

section \<open>The client: recall navigation\<close>

text \<open>
  Pressing Enter in the focused input runs the first render's \<open>doSearch\<close>, whose query
  field is empty: it reports the empty-input error whatever the field holds now.
\<close>

lemma enter_key_first_render:
  "onKey Enter True st = st\<lparr>error := ''Please enter a word.'', result := None\<rparr>"
  by (simp add: onKey_def doSearch_def trim_def toLowerCase_def)

text \<open>
  Claim C3. With history \<open>[A, B, C]\<close> and a fresh cursor, the first ArrowUp puts \<open>C\<close>
  in the query field, the second puts \<open>B\<close>, an ArrowDown from there puts \<open>C\<close> back and
  one more ArrowDown empties the field and resets the cursor. Each step changes only
  the cursor and the query field: the result, the error and the history are those of
  the starting state, so no search is executed.
\<close>

theorem recall_navigation:
  assumes "historyRef st = [A, B, C]" and "historyIndex st = - 1"
  shows "onKey ArrowUp f st = st\<lparr>historyIndex := 0, word := C\<rparr>
       \<and> onKey ArrowUp f (onKey ArrowUp f st) = st\<lparr>historyIndex := 1, word := B\<rparr>
       \<and> onKey ArrowDown f (onKey ArrowUp f (onKey ArrowUp f st))
           = st\<lparr>historyIndex := 0, word := C\<rparr>
       \<and> onKey ArrowDown f (onKey ArrowDown f (onKey ArrowUp f (onKey ArrowUp f st)))
           = st\<lparr>historyIndex := - 1, word := []\<rparr>"
  using assms by (simp add: onKey_def arrowUp_def arrowDown_def entryAt_def Let_def)

text \<open>Witness for C3: the history \<open>apple, banana, cherry\<close>.\<close>

theorem recall_navigation_witness:
  "historyRef nav_state = [''apple'', ''banana'', ''cherry''] \<and> historyIndex nav_state = - 1
   \<and> word (onKey ArrowUp True nav_state) = ''cherry''
   \<and> word (onKey ArrowUp True (onKey ArrowUp True nav_state)) = ''banana''
   \<and> word (onKey ArrowDown True (onKey ArrowUp True (onKey ArrowUp True nav_state)))
       = ''cherry''
   \<and> word (onKey ArrowDown True
       (onKey ArrowDown True (onKey ArrowUp True (onKey ArrowUp True nav_state)))) = []
   \<and> historyRef (onKey ArrowDown True
       (onKey ArrowDown True (onKey ArrowUp True (onKey ArrowUp True nav_state))))
       = [''apple'', ''banana'', ''cherry'']
   \<and> result (onKey ArrowDown True
       (onKey ArrowDown True (onKey ArrowUp True (onKey ArrowUp True nav_state)))) = None"
proof -
  note t = recall_navigation [OF example_states(4) example_states(5), of True]
  note c1 = t [THEN conjunct1]
    and c2 = t [THEN conjunct2, THEN conjunct1]
    and c3 = t [THEN conjunct2, THEN conjunct2, THEN conjunct1]
    and c4 = t [THEN conjunct2, THEN conjunct2, THEN conjunct2]
  have w1: "word (onKey ArrowUp True nav_state) = ''cherry''"
    by (simp only: c1) simp
  have w2: "word (onKey ArrowUp True (onKey ArrowUp True nav_state)) = ''banana''"
    by (simp only: c2) simp
  have w3: "word (onKey ArrowDown True (onKey ArrowUp True (onKey ArrowUp True nav_state)))
      = ''cherry''"
    by (simp only: c3) simp
  have w4: "word (onKey ArrowDown True
       (onKey ArrowDown True (onKey ArrowUp True (onKey ArrowUp True nav_state)))) = []"
    "historyRef (onKey ArrowDown True
       (onKey ArrowDown True (onKey ArrowUp True (onKey ArrowUp True nav_state))))
       = [''apple'', ''banana'', ''cherry'']"
    "result (onKey ArrowDown True
       (onKey ArrowDown True (onKey ArrowUp True (onKey ArrowUp True nav_state)))) = None"
    by (simp_all only: c4) (simp_all add: example_states)
  from example_states(4) example_states(5) w1 w2 w3 w4 show ?thesis
    by blast
qed

end
